theory Spec2Isabelle
  imports Main "HOL-Library.Product_Lexorder" "HOL-Library.Multiset"
begin

section \<open>Extension base classes\<close>

text \<open>
  \<^verbatim>\<open>src/shared/types.ts\<close> declares the metadata record consumed by the host's loader:
  \<^verbatim>\<open>interface ExtensionMetadata { name: string; version: string;
    description?: string; author?: string; icon?: string }\<close>.
  An optional property is an \<open>option\<close>: \<open>None\<close> is JavaScript's \<open>undefined\<close>.
\<close>

record ExtensionMetadata =
  name :: string
  version :: string
  description :: "string option"
  author :: "string option"
  icon :: "string option"

text \<open>
  \<^verbatim>\<open>src/ui/Extension.ts\<close>: the abstract class \<open>UIExtension\<close> has the five metadata fields
  of its own and the protected field \<open>ctx\<close>, which the host injects with \<open>_setContext\<close>
  (before that call the field is unset, hence the \<open>option\<close>). The context type is a
  parameter: nothing below looks inside it.
\<close>

record 'c UIExtension = ExtensionMetadata +
  ctx :: "'c option"

text \<open>\<^verbatim>\<open>_setContext(context) { this.ctx = context; }\<close>\<close>

definition UIExtension_setContext :: "'c \<Rightarrow> 'c UIExtension \<Rightarrow> 'c UIExtension" where
  "UIExtension_setContext context this = this\<lparr>ctx := Some context\<rparr>"

text \<open>
  \<^verbatim>\<open>_getMetadata() { return { name: this.name, version: this.version,
    description: this.description, author: this.author, icon: this.icon }; }\<close>
  The method is modelled with explicit state passing: it returns the fresh object literal
  together with the instance as the call leaves it.
\<close>

definition UIExtension_getMetadata :: "'c UIExtension \<Rightarrow> ExtensionMetadata \<times> 'c UIExtension" where
  "UIExtension_getMetadata this =
     (\<lparr>name = name this, version = version this, description = description this,
       author = author this, icon = icon this\<rparr>, this)"

text \<open>
  \<^verbatim>\<open>src/electron/Extension.ts\<close>: \<open>ElectronExtension\<close> has the same five fields, its own
  context field and the same two internal methods.
\<close>

record 'c ElectronExtension = ExtensionMetadata +
  ctx :: "'c option"

definition ElectronExtension_setContext :: "'c \<Rightarrow> 'c ElectronExtension \<Rightarrow> 'c ElectronExtension" where
  "ElectronExtension_setContext context this = this\<lparr>ElectronExtension.ctx := Some context\<rparr>"

definition ElectronExtension_getMetadata ::
  "'c ElectronExtension \<Rightarrow> ExtensionMetadata \<times> 'c ElectronExtension" where
  "ElectronExtension_getMetadata this =
     (\<lparr>name = name this, version = version this, description = description this,
       author = author this, icon = icon this\<rparr>, this)"

section \<open>Secure environment API: the declared surface\<close>

text \<open>
  The environment interfaces are declarations only, so what they promise is what their
  types say. A TypeScript type expression of the kind these declarations use is a value of
  \<open>ts_type\<close>: \<open>string\<close>, \<open>boolean\<close>, \<open>void\<close>, \<open>T[]\<close>, \<open>Promise<T>\<close>, \<open>Record<K, V>\<close>,
  an optional parameter \<open>p?: T\<close>, and a function type.
\<close>

datatype ts_type =
    TString | TBoolean | TVoid
  | TArray ts_type
  | TPromise ts_type
  | TRecord ts_type ts_type
  | TOptional ts_type
  | TFunction "ts_type list" ts_type

type_synonym ts_interface = "(string \<times> ts_type) list"

text \<open>
  The secure interface, from the file that \<^verbatim>\<open>src/ui/Extension.ts\<close> imports as
  \<^verbatim>\<open>./environment\<close>:
  \<^verbatim>\<open>getKeys(): Promise<string[]>;
  onChange(callback: (keys: string[]) => void): () => void;
  has(key: string): Promise<boolean>;\<close>
\<close>

definition EnvironmentAPI :: ts_interface where
  "EnvironmentAPI =
     [(''getKeys'', TFunction [] (TPromise (TArray TString))),
      (''onChange'', TFunction [TFunction [TArray TString] TVoid] (TFunction [] TVoid)),
      (''has'', TFunction [TString] (TPromise TBoolean))]"

text \<open>
  The deprecated interface of \<^verbatim>\<open>src/ui/types.ts\<close>, whose own comment reads
  ``This API exposes environment values which is insecure'':
  \<^verbatim>\<open>get(scope?: string): Promise<Record<string, string>>;
  set(key: string, value: string, scope?: string): Promise<void>;
  onChange(callback: (env: Record<string, string>) => void): () => void;\<close>
\<close>

definition LegacyEnvironmentAPI :: ts_interface where
  "LegacyEnvironmentAPI =
     [(''get'', TFunction [TOptional TString] (TPromise (TRecord TString TString))),
      (''set'', TFunction [TString, TString, TOptional TString] (TPromise TVoid)),
      (''onChange'', TFunction [TFunction [TRecord TString TString] TVoid] (TFunction [] TVoid))]"

text \<open>
  The environment-facing members an extension can reach. The accessor
  \<^verbatim>\<open>protected get environment(): EnvironmentAPI\<close> of \<open>UIExtension\<close> is typed with the secure
  interface; the injected context, which the subclass reaches as \<^verbatim>\<open>this.ctx\<close>, declares
  \<^verbatim>\<open>environment?: LegacyEnvironmentAPI\<close> in \<open>UIExtensionContext\<close> (\<^verbatim>\<open>src/ui/types.ts\<close>).
\<close>

definition UIExtension_environment :: ts_interface where
  "UIExtension_environment = EnvironmentAPI"

definition UIExtensionContext_environment :: ts_interface where
  "UIExtensionContext_environment = LegacyEnvironmentAPI"

definition environment_members :: "(string \<times> ts_interface) list" where
  "environment_members =
     [(''UIExtension.environment'', UIExtension_environment),
      (''UIExtensionContext.environment'', UIExtensionContext_environment)]"

text \<open>
  What reaches the extension through a member the host provides: the result of a call
  (a promise delivers what it resolves to) and the arguments the host passes to a callback
  the extension supplied. \<open>received\<close> lists the shapes that flow to the extension from a
  value the host gave it, \<open>received_through\<close> those that flow back to it through a value it
  gave to the host.
\<close>

fun received :: "ts_type \<Rightarrow> ts_type list"
  and received_through :: "ts_type \<Rightarrow> ts_type list" where
  "received (TFunction ps r) = concat (map received_through ps) @ received r"
| "received (TPromise t) = received t"
| "received (TOptional t) = received t"
| "received TString = [TString]"
| "received TBoolean = [TBoolean]"
| "received TVoid = []"
| "received (TArray t) = [TArray t]"
| "received (TRecord k v) = [TRecord k v]"
| "received_through (TFunction ps r) = concat (map received ps) @ received_through r"
| "received_through (TPromise t) = received_through t"
| "received_through (TOptional t) = received_through t"
| "received_through TString = []"
| "received_through TBoolean = []"
| "received_through TVoid = []"
| "received_through (TArray t) = []"
| "received_through (TRecord k v) = []"

text \<open>
  A shape is name-only when it is the list of variable names \<open>string[]\<close> or a boolean.
  \<open>Record<string, string>\<close> is the shape of name-to-value pairs.
\<close>

fun name_only :: "ts_type \<Rightarrow> bool" where
  "name_only (TArray TString) = True"
| "name_only TBoolean = True"
| "name_only _ = False"

definition surface_name_only :: "ts_interface \<Rightarrow> bool" where
  "surface_name_only api = list_all (\<lambda>(m, t). list_all name_only (received t)) api"

definition carries_values :: "ts_interface \<Rightarrow> bool" where
  "carries_values api = list_ex (\<lambda>(m, t). TRecord TString TString \<in> set (received t)) api"

section \<open>Helper system: the declared types\<close>

text \<open>
  The helper types of \<^verbatim>\<open>src/ui/helpers.ts\<close> constrain the JavaScript values an extension
  writes. The values that matter here: \<open>undefined\<close>, booleans, strings, functions and
  objects. An object is the list of its properties in the order written, a later property
  of the same name overriding an earlier one. A function is opaque (told apart by a
  number) and, being an object, may carry properties of its own.
\<close>

datatype js_value =
    JSUndefined | JSBoolean bool | JSString string
  | JSFunction nat "(string \<times> js_value) list"
  | JSObject "(string \<times> js_value) list"

fun property :: "js_value \<Rightarrow> string \<Rightarrow> js_value" where
  "property (JSObject ps) k = (case map_of (rev ps) k of Some v \<Rightarrow> v | None \<Rightarrow> JSUndefined)"
| "property (JSFunction f ps) k =
     (case map_of (rev ps) k of Some v \<Rightarrow> v | None \<Rightarrow> JSUndefined)"
| "property _ k = JSUndefined"

fun own_keys :: "js_value \<Rightarrow> string list" where
  "own_keys (JSObject ps) = remdups (map fst ps)"
| "own_keys (JSFunction f ps) = remdups (map fst ps)"
| "own_keys _ = []"

fun is_object :: "js_value \<Rightarrow> bool" where
  "is_object (JSObject ps) = True"
| "is_object _ = False"

fun is_string :: "js_value \<Rightarrow> bool" where
  "is_string (JSString s) = True"
| "is_string _ = False"

text \<open>
  \<^verbatim>\<open>type HelperFunction = (...args: any[]) => any\<close>: any function, whatever properties
  it carries.
\<close>

fun is_HelperFunction :: "js_value \<Rightarrow> bool" where
  "is_HelperFunction (JSFunction f ps) = True"
| "is_HelperFunction _ = False"

text \<open>\<^verbatim>\<open>interface HelperCollection { [helperName: string]: HelperFunction }\<close>\<close>

definition is_HelperCollection :: "js_value \<Rightarrow> bool" where
  "is_HelperCollection v =
     (is_object v \<and> list_all (\<lambda>k. is_HelperFunction (property v k)) (own_keys v))"

text \<open>
  \<^verbatim>\<open>interface HelperCapability { pure: true; noNetwork: true; noFileSystem: true;
    noEnvironment: true }\<close>: each property has the literal type \<open>true\<close>. Typing is
  structural: a value conforms when it has the four properties with that value, whatever
  else it has.
\<close>

definition required_flags :: "string list" where
  "required_flags = [''pure'', ''noNetwork'', ''noFileSystem'', ''noEnvironment'']"

definition is_HelperCapability :: "js_value \<Rightarrow> bool" where
  "is_HelperCapability v =
     (property v ''pure'' = JSBoolean True \<and> property v ''noNetwork'' = JSBoolean True
      \<and> property v ''noFileSystem'' = JSBoolean True
      \<and> property v ''noEnvironment'' = JSBoolean True)"

text \<open>
  \<^verbatim>\<open>interface HelperMetadata { name: string; description: string; extensionId: string;
    version: string; capabilities: HelperCapability }\<close>
\<close>

definition is_HelperMetadata :: "js_value \<Rightarrow> bool" where
  "is_HelperMetadata v =
     (is_string (property v ''name'') \<and> is_string (property v ''description'')
      \<and> is_string (property v ''extensionId'') \<and> is_string (property v ''version'')
      \<and> is_HelperCapability (property v ''capabilities''))"

text \<open>
  \<^verbatim>\<open>register(helpers: HelperCollection): void\<close>: the one parameter of a registration is the
  collection, so a call type-checks exactly when its argument is a \<open>HelperCollection\<close>.
\<close>

definition register_typechecks :: "js_value \<Rightarrow> bool" where
  "register_typechecks helpers = is_HelperCollection helpers"

section \<open>Request pipeline: the declared types\<close>

text \<open>
  The pipeline declarations (the file imported as \<^verbatim>\<open>./pipeline\<close>, found after the legacy
  declarations in \<^verbatim>\<open>src/ui/types.d.ts\<close>). The enumeration of stages:
\<close>

datatype PipelineStage = PreProcessing | RequestCompilation | PreSend | PostProcessing

text \<open>
  The request state and the hook contexts are declarations only, so what a handler may do
  to them is what their types allow. A declared type is a value of \<open>ts_shape\<close>: a named
  type (\<open>string\<close>, \<open>number\<close>, \<open>boolean\<close>, \<open>any\<close>, \<open>null\<close>), \<open>Array<T>\<close>,
  \<open>Record<K, V>\<close>, a union, an object type as the list of its properties in the order
  declared, and \<open>Readonly<T>\<close>. A property is declared plain, optional (\<open>p?: T\<close>),
  \<open>readonly\<close>, or both.
\<close>

datatype ts_modifier = Required | Optional | ReadonlyRequired | ReadonlyOptional

fun is_readonly :: "ts_modifier \<Rightarrow> bool" where
  "is_readonly ReadonlyRequired = True"
| "is_readonly ReadonlyOptional = True"
| "is_readonly _ = False"

fun is_optional :: "ts_modifier \<Rightarrow> bool" where
  "is_optional Optional = True"
| "is_optional ReadonlyOptional = True"
| "is_optional _ = False"

fun make_readonly :: "ts_modifier \<Rightarrow> ts_modifier" where
  "make_readonly Required = ReadonlyRequired"
| "make_readonly Optional = ReadonlyOptional"
| "make_readonly m = m"

datatype ts_shape =
    TNamed string
  | TArrayOf ts_shape
  | TRecordOf ts_shape ts_shape
  | TUnionOf "ts_shape list"
  | TObject "(string \<times> ts_modifier \<times> ts_shape) list"
  | TReadonlyOf ts_shape

text \<open>
  The properties of a type, with their modifiers: \<open>Readonly<T>\<close> has the properties of
  \<open>T\<close>, each made \<open>readonly\<close>.
\<close>

fun properties :: "ts_shape \<Rightarrow> (string \<times> ts_modifier \<times> ts_shape) list" where
  "properties (TObject ps) = ps"
| "properties (TReadonlyOf t) = map (\<lambda>(n, m, s). (n, make_readonly m, s)) (properties t)"
| "properties _ = []"

text \<open>
  Whether the compiler accepts the assignment \<^verbatim>\<open>x.p1.p2...pn = e\<close> for \<open>x\<close> of the given
  type and \<open>e\<close> of the type of the last property: every property on the path is declared,
  none before the last is optional (the object could be \<open>undefined\<close>), and the last is
  not \<open>readonly\<close>.
\<close>

fun assignment_typechecks :: "ts_shape \<Rightarrow> string list \<Rightarrow> bool" where
  "assignment_typechecks t [] = False"
| "assignment_typechecks t [p] =
     (case map_of (properties t) p of
        None \<Rightarrow> False
      | Some (m, s) \<Rightarrow> \<not> is_readonly m)"
| "assignment_typechecks t (p # q # path) =
     (case map_of (properties t) p of
        None \<Rightarrow> False
      | Some (m, s) \<Rightarrow> \<not> is_optional m \<and> assignment_typechecks s (q # path))"

text \<open>\<^verbatim>\<open>{ key: string; value: string; enabled?: boolean }\<close>, the entry of the request's lists.\<close>

definition KeyValueEnabled :: ts_shape where
  "KeyValueEnabled =
     TObject [(''key'', Required, TNamed ''string''), (''value'', Required, TNamed ''string''),
              (''enabled'', Optional, TNamed ''boolean'')]"

text \<open>
  \<^verbatim>\<open>interface RestApiRequestState { method: string; url: string;
    headers: Array<...>; queryParams: Array<...>; pathParams: Array<...>;
    body?: string; contentType?: string; metadata?: Record<string, any> }\<close>
\<close>

definition RestApiRequestState :: ts_shape where
  "RestApiRequestState =
     TObject
       [(''method'', Required, TNamed ''string''),
        (''url'', Required, TNamed ''string''),
        (''headers'', Required, TArrayOf KeyValueEnabled),
        (''queryParams'', Required, TArrayOf KeyValueEnabled),
        (''pathParams'', Required, TArrayOf KeyValueEnabled),
        (''body'', Optional, TNamed ''string''),
        (''contentType'', Optional, TNamed ''string''),
        (''metadata'', Optional, TRecordOf (TNamed ''string'') (TNamed ''any''))]"

text \<open>
  \<^verbatim>\<open>interface RestApiResponseState { status: number; statusText: string;
    headers: Array<{ key: string; value: string }>; contentType: string | null; body: any;
    timing: { start: number; end: number; duration: number }; bytesContent: number;
    url: string; error: string | null; metadata?: Record<string, any> }\<close>
\<close>

definition RestApiResponseState :: ts_shape where
  "RestApiResponseState =
     TObject
       [(''status'', Required, TNamed ''number''),
        (''statusText'', Required, TNamed ''string''),
        (''headers'', Required,
           TArrayOf (TObject [(''key'', Required, TNamed ''string''),
                              (''value'', Required, TNamed ''string'')])),
        (''contentType'', Required, TUnionOf [TNamed ''string'', TNamed ''null'']),
        (''body'', Required, TNamed ''any''),
        (''timing'', Required,
           TObject [(''start'', Required, TNamed ''number''),
                    (''end'', Required, TNamed ''number''),
                    (''duration'', Required, TNamed ''number'')]),
        (''bytesContent'', Required, TNamed ''number''),
        (''url'', Required, TNamed ''string''),
        (''error'', Required, TUnionOf [TNamed ''string'', TNamed ''null'']),
        (''metadata'', Optional, TRecordOf (TNamed ''string'') (TNamed ''any''))]"

text \<open>
  \<^verbatim>\<open>interface PreSendContext { requestState: RestApiRequestState;
    metadata: Record<string, any> }\<close>, the first property under the comment
  ``Request state (can be modified)''.
\<close>

definition PreSendContext :: ts_shape where
  "PreSendContext =
     TObject [(''requestState'', Required, RestApiRequestState),
              (''metadata'', Required, TRecordOf (TNamed ''string'') (TNamed ''any''))]"

text \<open>
  \<^verbatim>\<open>interface PostProcessingContext { requestState: RestApiRequestState;
    responseState: RestApiResponseState; metadata: Record<string, any> }\<close>, the first
  property under the comment ``Request state (read-only)''.
\<close>

definition PostProcessingContext :: ts_shape where
  "PostProcessingContext =
     TObject [(''requestState'', Required, RestApiRequestState),
              (''responseState'', Required, RestApiResponseState),
              (''metadata'', Required, TRecordOf (TNamed ''string'') (TNamed ''any''))]"

section \<open>Request pipeline: the hook registry\<close>

text \<open>
  Modelled from the spec: the registry behind \<open>PipelineAPI\<close>, which the host implements.
  ``Hook registration: tuple of (stage, handler, priority, owning-extension-id). Priority
  is a signed integer; default 100.'' The registry is the list of registrations in
  registration order.
\<close>

record 'h HookRegistration =
  stage :: PipelineStage
  handler :: 'h
  priority :: int
  extensionId :: string

type_synonym 'h HookRegistry = "'h HookRegistration list"

text \<open>
  Modelled from the spec: the implementation of
  \<^verbatim>\<open>registerHook(stage, handler, priority?)\<close>: ``appends (handler, priority, extensionId) to
  that stage's list''. A \<open>PipelineAPI\<close> object belongs to one extension, which is the first
  argument here; the optional parameter is an \<open>option\<close>, and the declaration's comment on
  it reads ``Lower numbers run first (default: 100)''.
\<close>

definition registerHook ::
  "string \<Rightarrow> PipelineStage \<Rightarrow> 'h \<Rightarrow> int option \<Rightarrow> 'h HookRegistry \<Rightarrow> 'h HookRegistry" where
  "registerHook ext s h p reg =
     reg @ [\<lparr>stage = s, handler = h,
             priority = (case p of None \<Rightarrow> 100 | Some q \<Rightarrow> q), extensionId = ext\<rparr>]"

text \<open>
  Modelled from the spec: ``that stage's list'', the registrations of one stage in
  registration order.
\<close>

definition hooksAt :: "PipelineStage \<Rightarrow> 'h HookRegistry \<Rightarrow> 'h HookRegistration list" where
  "hooksAt s reg = filter (\<lambda>r. stage r = s) reg"

text \<open>
  Modelled from the spec: the order in which the host runs the hooks of a stage: ``sort
  registered hooks by (priority ascending, registration order ascending)''. Each
  registration is paired with its position in the registry and the pairs are sorted on
  the key (priority, position), compared lexicographically.
\<close>

definition executionOrder :: "PipelineStage \<Rightarrow> 'h HookRegistry \<Rightarrow> 'h HookRegistration list" where
  "executionOrder s reg =
     map snd (sort_key (\<lambda>(i, r). (priority r, i))
                (filter (\<lambda>(i, r). stage r = s) (enumerate 0 reg)))"

section \<open>Properties of the extension base classes\<close>

text \<open>
  Claim C10. For every \<open>UIExtension\<close> or \<open>ElectronExtension\<close> instance, \<open>_getMetadata()\<close>
  returns a record of exactly the five metadata fields \<open>name\<close>, \<open>version\<close>,
  \<open>description\<close>, \<open>author\<close>, \<open>icon\<close>, each equal to the instance's own field when the
  call is made, and the call changes neither the instance nor its injected context.
\<close>

theorem getMetadata_copies_fields_and_keeps_instance:
  fixes u :: "'c UIExtension" and e :: "'d ElectronExtension"
  shows "name (fst (UIExtension_getMetadata u)) = name u
       \<and> version (fst (UIExtension_getMetadata u)) = version u
       \<and> description (fst (UIExtension_getMetadata u)) = description u
       \<and> author (fst (UIExtension_getMetadata u)) = author u
       \<and> icon (fst (UIExtension_getMetadata u)) = icon u
       \<and> ExtensionMetadata.more (fst (UIExtension_getMetadata u)) = ()
       \<and> snd (UIExtension_getMetadata u) = u
       \<and> UIExtension.ctx (snd (UIExtension_getMetadata u)) = UIExtension.ctx u
       \<and> name (fst (ElectronExtension_getMetadata e)) = name e
       \<and> version (fst (ElectronExtension_getMetadata e)) = version e
       \<and> description (fst (ElectronExtension_getMetadata e)) = description e
       \<and> author (fst (ElectronExtension_getMetadata e)) = author e
       \<and> icon (fst (ElectronExtension_getMetadata e)) = icon e
       \<and> ExtensionMetadata.more (fst (ElectronExtension_getMetadata e)) = ()
       \<and> snd (ElectronExtension_getMetadata e) = e
       \<and> ElectronExtension.ctx (snd (ElectronExtension_getMetadata e)) = ElectronExtension.ctx e"
  by (simp add: UIExtension_getMetadata_def ElectronExtension_getMetadata_def)

text \<open>
  The metadata is read when the call is made: it does not depend on the injected context,
  and a field assigned before the call is the one returned.
\<close>

lemma getMetadata_after_setContext:
  "fst (UIExtension_getMetadata (UIExtension_setContext c u)) = fst (UIExtension_getMetadata u)"
  "fst (ElectronExtension_getMetadata (ElectronExtension_setContext d e))
     = fst (ElectronExtension_getMetadata e)"
  by (simp_all add: UIExtension_getMetadata_def UIExtension_setContext_def
        ElectronExtension_getMetadata_def ElectronExtension_setContext_def)

lemma getMetadata_reads_current_fields:
  "name (fst (UIExtension_getMetadata (u\<lparr>name := n\<rparr>))) = n"
  "description (fst (UIExtension_getMetadata (u\<lparr>description := d\<rparr>))) = d"
  "version (fst (ElectronExtension_getMetadata (e\<lparr>version := v\<rparr>))) = v"
  by (simp_all add: UIExtension_getMetadata_def ElectronExtension_getMetadata_def)

section \<open>Properties of the environment surface\<close>

lemma secure_environment_surface_is_name_only:
  "surface_name_only UIExtension_environment \<and> \<not> carries_values UIExtension_environment"
  by (simp add: surface_name_only_def carries_values_def UIExtension_environment_def
        EnvironmentAPI_def)

text \<open>
  Claim C1 says that every environment-facing member an extension can reach returns and
  passes to callbacks only variable names. The accessor typed \<open>EnvironmentAPI\<close> does
  (lemma above). The member \<open>environment\<close> of \<open>UIExtensionContext\<close> does not: its \<open>get\<close>
  resolves to \<open>Record<string, string>\<close>, the name-to-value pairs, and its \<open>onChange\<close>
  callback is passed the same shape.
\<close>

theorem context_environment_member_delivers_values:
  "map (\<lambda>(member, api). (member, surface_name_only api)) environment_members
     = [(''UIExtension.environment'', True), (''UIExtensionContext.environment'', False)]
   \<and> carries_values UIExtensionContext_environment
   \<and> \<not> surface_name_only UIExtensionContext_environment
   \<and> map_of UIExtensionContext_environment ''get''
       = Some (TFunction [TOptional TString] (TPromise (TRecord TString TString)))
   \<and> received (TFunction [TOptional TString] (TPromise (TRecord TString TString)))
       = [TRecord TString TString]
   \<and> received (TFunction [TFunction [TRecord TString TString] TVoid] (TFunction [] TVoid))
       = [TRecord TString TString]"
  by (simp add: surface_name_only_def carries_values_def environment_members_def
        UIExtension_environment_def UIExtensionContext_environment_def
        EnvironmentAPI_def LegacyEnvironmentAPI_def)

section \<open>Properties of the helper types\<close>

text \<open>
  Claim C4 as stated: a registration whose capability object has \<open>pure: false\<close>, or a
  required flag missing, is rejected at the type level. It fails: \<open>register\<close> takes a
  collection of functions and no capability object. The call
  \<^verbatim>\<open>this.helpers.register({ fetchData: f })\<close> type-checks when \<open>f\<close> is a plain function,
  which declares no flag at all, and when \<open>f\<close> is
  \<^verbatim>\<open>Object.assign(fn, { capabilities: { pure: false, noNetwork: true, noFileSystem: true,
    noEnvironment: true } })\<close>, a function that carries a capability object with
  \<open>pure: false\<close>.
\<close>

theorem register_typechecks_without_capabilities:
  "register_typechecks (JSObject [(''fetchData'', JSFunction 0 [])])
   \<and> \<not> is_HelperCapability
         (property (JSObject [(''fetchData'', JSFunction 0 [])]) ''capabilities'')
   \<and> register_typechecks
        (JSObject [(''fetchData'',
           JSFunction 0 [(''capabilities'',
             JSObject [(''pure'', JSBoolean False), (''noNetwork'', JSBoolean True),
                       (''noFileSystem'', JSBoolean True),
                       (''noEnvironment'', JSBoolean True)])])])
   \<and> property (property (property
        (JSObject [(''fetchData'',
           JSFunction 0 [(''capabilities'',
             JSObject [(''pure'', JSBoolean False), (''noNetwork'', JSBoolean True),
                       (''noFileSystem'', JSBoolean True),
                       (''noEnvironment'', JSBoolean True)])])])
        ''fetchData'') ''capabilities'') ''pure'' = JSBoolean False"
  by (simp add: register_typechecks_def is_HelperCollection_def is_HelperCapability_def)

text \<open>
  Claim C4, amended: what is checked is the type \<open>HelperCapability\<close>. A value with one of the four
  required flags missing or not literally \<open>true\<close> is not a \<open>HelperCapability\<close>, and no
  \<open>HelperMetadata\<close> can carry it as its \<open>capabilities\<close>; \<open>register\<close> itself checks only that
  its argument is a \<open>HelperCollection\<close>.
\<close>

theorem capability_flags_must_be_literally_true:
  assumes "k \<in> set required_flags" and "property v k \<noteq> JSBoolean True"
  shows "\<not> is_HelperCapability v
       \<and> (property m ''capabilities'' = v \<longrightarrow> \<not> is_HelperMetadata m)
       \<and> register_typechecks h = is_HelperCollection h"
  using assms
  by (auto simp: required_flags_def is_HelperCapability_def is_HelperMetadata_def
        register_typechecks_def)

theorem capability_flags_must_be_literally_true_witness:
  "''pure'' \<in> set required_flags
   \<and> property (JSObject [(''pure'', JSBoolean False), (''noNetwork'', JSBoolean True),
                 (''noFileSystem'', JSBoolean True), (''noEnvironment'', JSBoolean True)])
        ''pure'' \<noteq> JSBoolean True
   \<and> \<not> is_HelperCapability
          (JSObject [(''pure'', JSBoolean False), (''noNetwork'', JSBoolean True),
                 (''noFileSystem'', JSBoolean True), (''noEnvironment'', JSBoolean True)])
   \<and> is_HelperCapability
          (JSObject [(''pure'', JSBoolean True), (''noNetwork'', JSBoolean True),
                 (''noFileSystem'', JSBoolean True), (''noEnvironment'', JSBoolean True)])"
proof -
  let ?v = "JSObject [(''pure'', JSBoolean False), (''noNetwork'', JSBoolean True),
                 (''noFileSystem'', JSBoolean True), (''noEnvironment'', JSBoolean True)]"
  have k: "''pure'' \<in> set required_flags" by (simp add: required_flags_def)
  have p: "property ?v ''pure'' \<noteq> JSBoolean True" by simp
  have ok: "is_HelperCapability
          (JSObject [(''pure'', JSBoolean True), (''noNetwork'', JSBoolean True),
                 (''noFileSystem'', JSBoolean True), (''noEnvironment'', JSBoolean True)])"
    by (simp add: is_HelperCapability_def)
  show ?thesis
    using k p ok capability_flags_must_be_literally_true [OF k p] by blast
qed

section \<open>Properties of the pipeline registry\<close>

text \<open>
  Sorting the indexed registrations on (priority, position) is the insertion sort on the
  priority alone: a registration with a smaller position than all those already sorted is
  inserted in front of the first one whose priority is not smaller.
\<close>

lemma insort_pair_key:
  fixes ys :: "(nat \<times> 'h HookRegistration) list"
  assumes "\<forall>j \<in> fst ` set ys. i < j"
  shows "map snd (insort_key (\<lambda>(i, r). (priority r, i)) (i, h) ys)
         = insort_key priority h (map snd ys)"
  using assms by (induction ys) (auto simp: less_eq_prod_def less_prod_def)

lemma sort_pair_key:
  fixes xs :: "(nat \<times> 'h HookRegistration) list"
  assumes "sorted_wrt (<) (map fst xs)"
  shows "map snd (sort_key (\<lambda>(i, r). (priority r, i)) xs) = sort_key priority (map snd xs)"
  using assms
proof (induction xs)
  case Nil
  then show ?case by simp
next
  case (Cons x xs)
  obtain i h where x: "x = (i, h)" by (cases x)
  have "\<forall>j \<in> fst ` set (sort_key (\<lambda>(i, r). (priority r, i)) xs). i < j"
    using Cons.prems x by auto
  then show ?case using Cons x by (simp add: insort_pair_key)
qed

lemma filter_enumerate_increasing:
  "sorted_wrt (<) (map fst (filter P (enumerate n xs)))"
proof -
  have "sorted_wrt (<) (map fst (enumerate n xs))"
    by simp
  then have "sorted_wrt (\<lambda>x y. fst x < fst y) (enumerate n xs)"
    unfolding sorted_wrt_map .
  then have "sorted_wrt (\<lambda>x y. fst x < fst y) (filter P (enumerate n xs))"
    by (rule sorted_wrt_filter)
  then show ?thesis unfolding sorted_wrt_map .
qed

lemma map_snd_filter_enumerate:
  "map snd (filter (\<lambda>(i, r). P r) (enumerate n xs)) = filter P xs"
  by (induction xs arbitrary: n) auto

lemma executionOrder_sort_key:
  "executionOrder s reg = sort_key priority (hooksAt s reg)"
  unfolding executionOrder_def hooksAt_def
  by (simp add: sort_pair_key filter_enumerate_increasing map_snd_filter_enumerate)

lemma hooksAt_Nil: "hooksAt s [] = []"
  by (simp add: hooksAt_def)

lemma hooksAt_registerHook:
  "hooksAt s (registerHook ext s h p reg)
     = hooksAt s reg @ [\<lparr>stage = s, handler = h,
                         priority = (case p of None \<Rightarrow> 100 | Some q \<Rightarrow> q),
                         extensionId = ext\<rparr>]"
  "s' \<noteq> s \<Longrightarrow> hooksAt s' (registerHook ext s h p reg) = hooksAt s' reg"
  by (simp_all add: hooksAt_def registerHook_def)

text \<open>
  Claim C2. Within a stage the execution order is the stable sort of the registration
  sequence by ascending priority: it is the insertion sort of the stage's registrations on
  their priority, hence sorted, a permutation of them, and with the registrations of any
  one priority in registration order. Hooks registered at priorities 50, the default and
  10, in that order, run in the order 10, 50, 100, and two hooks registered at the same
  priority run in registration order.
\<close>

theorem execution_order_is_stable_priority_sort:
  "executionOrder s reg = sort_key priority (hooksAt s reg)
   \<and> sorted (map priority (executionOrder s reg))
   \<and> mset (executionOrder s reg) = mset (hooksAt s reg)
   \<and> filter (\<lambda>r. priority r = p) (executionOrder s reg)
       = filter (\<lambda>r. priority r = p) (hooksAt s reg)
   \<and> map priority (executionOrder s
         (registerHook e3 s h3 (Some 10)
           (registerHook e2 s h2 None
             (registerHook e1 s h1 (Some 50) [])))) = [10, 50, 100]
   \<and> map handler (executionOrder s
         (registerHook e3 s h3 (Some 10)
           (registerHook e2 s h2 None
             (registerHook e1 s h1 (Some 50) [])))) = [h3, h1, h2]
   \<and> map handler (executionOrder s
         (registerHook e2 s h2 (Some q) (registerHook e1 s h1 (Some q) []))) = [h1, h2]"
proof -
  have "executionOrder s reg = sort_key priority (hooksAt s reg)
      \<and> sorted (map priority (executionOrder s reg))
      \<and> mset (executionOrder s reg) = mset (hooksAt s reg)
      \<and> filter (\<lambda>r. priority r = p) (executionOrder s reg)
          = filter (\<lambda>r. priority r = p) (hooksAt s reg)"
    by (simp add: executionOrder_sort_key sort_key_stable)
  moreover have "map priority (executionOrder s
         (registerHook e3 s h3 (Some 10)
           (registerHook e2 s h2 None
             (registerHook e1 s h1 (Some 50) [])))) = [10, 50, 100]"
    by (simp add: executionOrder_sort_key hooksAt_registerHook hooksAt_Nil)
  moreover have "map handler (executionOrder s
         (registerHook e3 s h3 (Some 10)
           (registerHook e2 s h2 None
             (registerHook e1 s h1 (Some 50) [])))) = [h3, h1, h2]"
    by (simp add: executionOrder_sort_key hooksAt_registerHook hooksAt_Nil)
  moreover have "map handler (executionOrder s
         (registerHook e2 s h2 (Some q) (registerHook e1 s h1 (Some q) []))) = [h1, h2]"
    by (simp add: executionOrder_sort_key hooksAt_registerHook hooksAt_Nil)
  ultimately show ?thesis by blast
qed

section \<open>Properties of the hook context types\<close>

text \<open>
  The assignment check honours \<open>readonly\<close>: were a context's request state declared
  \<open>Readonly<T>\<close>, or the property itself \<open>readonly\<close>, no assignment through it or to it
  would be accepted.
\<close>

lemma map_of_readonly:
  "map_of (map (\<lambda>(n, m, s). (n, make_readonly m, s)) ps) q = Some (m', s') \<Longrightarrow> is_readonly m'"
proof (induction ps)
  case Nil
  then show ?case by simp
next
  case (Cons x ps)
  obtain n m s where x: "x = (n, m, s)" by (cases x)
  have "is_readonly (make_readonly m)" by (cases m) simp_all
  then show ?case using Cons x by (auto split: if_splits)
qed

lemma readonly_view_rejects_assignment:
  "\<not> assignment_typechecks (TObject [(p, Required, TReadonlyOf t)]) [p, q]"
  "\<not> assignment_typechecks (TObject [(p, ReadonlyRequired, t)]) [p]"
  by (auto split: option.splits dest: map_of_readonly)

text \<open>
  Claim C5 says that a post-processing hook gets a read-only view of the request state and
  sees only the fields of its context type. The context type does expose exactly
  \<open>requestState\<close>, \<open>responseState\<close> and \<open>metadata\<close>. But its \<open>requestState\<close> is declared
  with the type \<open>RestApiRequestState\<close> itself, exactly as in the pre-send context, where the
  comment says it can be modified: the handler
  \<^verbatim>\<open>(context) => { context.requestState.url = 'https://attacker.example/'; }\<close> is accepted
  for the post-processing stage, and so is an assignment to any of the eight fields of the
  request state.
\<close>

theorem postprocessing_request_state_is_declared_writable:
  "map fst (properties PostProcessingContext)
     = [''requestState'', ''responseState'', ''metadata'']
   \<and> assignment_typechecks PostProcessingContext [''requestState'', ''url'']
   \<and> map (\<lambda>(n, m, s). (n, assignment_typechecks PostProcessingContext [''requestState'', n]))
         (properties RestApiRequestState)
       = [(''method'', True), (''url'', True), (''headers'', True), (''queryParams'', True),
          (''pathParams'', True), (''body'', True), (''contentType'', True),
          (''metadata'', True)]
   \<and> map_of (properties PostProcessingContext) ''requestState''
       = map_of (properties PreSendContext) ''requestState''"
  by (simp add: PostProcessingContext_def PreSendContext_def RestApiRequestState_def)

end
